theory Spec2Isabelle
  imports Complex_Main
begin

section \<open>The thread model of the mail addon (thread_model.js)\<close>

text \<open>
  A shallow embedding of the message window kept by \<open>Thread\<close> in
  \<open>addons/mail/static/src/core/common/thread_model.js\<close>: the paginated fetches
  (\<open>fetchMessages\<close>, \<open>fetchMoreMessages\<close>), the re-insertion of transient messages,
  the replacement of a temporary message by its confirmation, and \<open>markAsRead\<close>.

  Message ids are JavaScript numbers. The code tells a persisted message from a temporary
  or transient one by \<open>Number.isInteger(msg.id)\<close>, so ids are modelled as rationals and
  only compared, never computed with.
\<close>

subsection \<open>Data\<close>

type_synonym Persona = nat

record Message =
  id_Message :: rat
  author :: Persona
  isEmpty :: bool
  is_transient :: bool
  isReadBySelf :: bool

record ChannelMember =
  syncUnread :: bool
  seen_message_id :: "Message option"

text \<open>The \<open>id\<close> of a thread is a number, a string (a mailbox) or missing (a record not yet saved).\<close>

datatype thread_id = IdUndefined | IdNumber int | IdString string

text \<open>\<open>!this.id\<close>: the JavaScript values that count as false.\<close>

fun falsy :: "thread_id \<Rightarrow> bool" where
  "falsy IdUndefined = True"
| "falsy (IdNumber n) = (n = 0)"
| "falsy (IdString s) = (s = [])"

text \<open>\<open>status\<close> starts as \<open>"new"\<close>; \<open>fetchMessages\<close> writes \<open>"loading"\<close> and \<open>"ready"\<close>.\<close>

datatype status = New | Loading | Ready

record Thread =
  id_Thread :: thread_id
  model :: string
  allMessages :: "Message list"
  loadOlder :: bool
  loadNewer :: bool
  isLoaded :: bool
  message_needaction_counter :: int
  messages :: "Message list"
  pendingNewMessages :: "Message list"
  selfMember :: "ChannelMember option"
  status :: status
  transientMessages :: "Message list"
  hasLoadingFailed :: bool

record Store =
  FETCH_LIMIT :: nat
  self :: Persona

text \<open>A rejected remote call carries a code (\<open>e.code\<close>).\<close>

datatype error = RPCError int

subsection \<open>The array operations the code uses on its lists\<close>

text \<open>
  \<open>messages\<close>, \<open>pendingNewMessages\<close> and \<open>transientMessages\<close> are record lists, which the
  code drives through the methods of a JavaScript array. Their implementation
  (\<open>record.js\<close>) is not among the sources; \<open>unshift\<close>, \<open>push\<close>, \<open>splice\<close>, \<open>sort\<close>,
  \<open>find\<close>, \<open>findLast\<close>, \<open>findIndex\<close>, \<open>indexOf\<close> and \<open>some\<close> are taken with the meaning
  they have on arrays.
\<close>

definition unshift :: "'a list \<Rightarrow> 'a list \<Rightarrow> 'a list" where
  "unshift items xs = items @ xs"

definition push :: "'a list \<Rightarrow> 'a list \<Rightarrow> 'a list" where
  "push items xs = xs @ items"

text \<open>
  \<open>splice(start, deleteCount, ...items)\<close>: a negative \<open>start\<close> counts from the end, and
  \<open>start\<close> is clamped to the array.
\<close>

definition splice :: "int \<Rightarrow> nat \<Rightarrow> 'a list \<Rightarrow> 'a list \<Rightarrow> 'a list" where
  "splice start deleteCount items xs =
     (let len = int (length xs);
          actualStart = nat (if start < 0 then max (len + start) 0 else min start len)
      in take actualStart xs @ items
           @ drop (actualStart + min deleteCount (length xs - actualStart)) xs)"

text \<open>\<open>findIndex\<close> answers \<open>-1\<close> when no element satisfies the test.\<close>

fun findIndex :: "('a \<Rightarrow> bool) \<Rightarrow> 'a list \<Rightarrow> int" where
  "findIndex P [] = - 1"
| "findIndex P (x # xs) =
     (if P x then 0
      else (let i = findIndex P xs in if i = - 1 then - 1 else i + 1))"

definition indexOf :: "'a \<Rightarrow> 'a list \<Rightarrow> int" where
  "indexOf x xs = findIndex (\<lambda>y. y = x) xs"

definition findLast :: "('a \<Rightarrow> bool) \<Rightarrow> 'a list \<Rightarrow> 'a option" where
  "findLast P xs = List.find P (rev xs)"

text \<open>\<open>Number.isInteger\<close> on an id.\<close>

definition Number_isInteger :: "rat \<Rightarrow> bool" where
  "Number_isInteger x = (of_int \<lfloor>x\<rfloor> = x)"

subsection \<open>Getters of the thread\<close>

text \<open>
  The test \<open>(msg) => Number.isInteger(msg.id)\<close> of both getters: a message is persisted
  when its id is an integer.
\<close>

definition persisted :: "Message \<Rightarrow> bool" where
  "persisted msg = Number_isInteger (id_Message msg)"

definition oldestPersistentMessage :: "Thread \<Rightarrow> Message option" where
  "oldestPersistentMessage t = List.find persisted (messages t)"

definition newestPersistentMessage :: "Thread \<Rightarrow> Message option" where
  "newestPersistentMessage t = findLast persisted (messages t)"

subsection \<open>fetchMessages\<close>

datatype route = DiscussChannelMessages | MailBoxMessages thread_id | MailThreadMessages

datatype fetch_params = ChannelParams thread_id | NoParams | ThreadParams thread_id string

definition getFetchParams :: "Thread \<Rightarrow> fetch_params" where
  "getFetchParams t =
     (if model t = ''discuss.channel'' then ChannelParams (id_Thread t)
      else if model t = ''mail.box'' then NoParams
      else ThreadParams (id_Thread t) (model t))"

definition getFetchRoute :: "Thread \<Rightarrow> route" where
  "getFetchRoute t =
     (if model t = ''discuss.channel'' then DiscussChannelMessages
      else if model t = ''mail.box'' then MailBoxMessages (id_Thread t)
      else MailThreadMessages)"

text \<open>The argument \<open>{ after, around, before }\<close>; a key left out is \<open>undefined\<close> (\<open>None\<close>).\<close>

record fetch_args =
  after :: "rat option"
  around :: "rat option"
  before :: "rat option"

record fetch_request =
  req_route :: route
  req_params :: fetch_params
  req_limit :: nat
  req_after :: "rat option"
  req_around :: "rat option"
  req_before :: "rat option"

text \<open>\<open>!around\<close> for a number or \<open>undefined\<close>.\<close>

fun js_not :: "rat option \<Rightarrow> bool" where
  "js_not None = True"
| "js_not (Some x) = (x = 0)"

text \<open>The request \<open>fetchMessages\<close> hands to \<open>rpc\<close> (lines 683 to 690).\<close>

definition fetchMessages_request :: "Store \<Rightarrow> Thread \<Rightarrow> fetch_args \<Rightarrow> fetch_request" where
  "fetchMessages_request store t args =
     \<lparr> req_route = getFetchRoute t,
       req_params = getFetchParams t,
       req_limit = (if js_not (around args) \<and> around args \<noteq> Some 0
                    then FETCH_LIMIT store else FETCH_LIMIT store * 2),
       req_after = after args,
       req_around = around args,
       req_before = before args \<rparr>"

text \<open>
  \<open>fetchMessages\<close> is asynchronous: it is suspended once, on the remote call. The remote
  call is the parameter \<open>rpc\<close>, which answers a request with the raw messages, newest
  first, or rejects it. While the call is suspended other code of the single-threaded
  client may run and change the thread; that is the parameter \<open>during\<close>, applied to the
  thread as the call left it. \<open>Message.insert\<close> turns raw data into the message records of
  the same ids, in the same order; raw data and records are identified here.

  The result is the returned list (\<open>Inr\<close>) or the exception re-thrown (\<open>Inl\<close>), and the
  thread as the call leaves it.
\<close>

definition fetchMessages ::
  "Store \<Rightarrow> (fetch_request \<Rightarrow> error + Message list) \<Rightarrow> (Thread \<Rightarrow> Thread) \<Rightarrow> fetch_args
     \<Rightarrow> Thread \<Rightarrow> (error + Message list) \<times> Thread" where
  "fetchMessages store rpc during args t0 =
     (let t = t0\<lparr>status := Loading\<rparr> in
      if model t \<notin> set [''mail.box'', ''discuss.channel''] \<and> falsy (id_Thread t)
      then (Inr [], t\<lparr>isLoaded := True\<rparr>)
      else
        (let request = fetchMessages_request store t args;
             t = during t
         in case rpc request of
              Inr rawMessages \<Rightarrow>
                (Inr (rev rawMessages), t\<lparr>isLoaded := True, status := Ready\<rparr>)
            | Inl e \<Rightarrow>
                (Inl e, t\<lparr>hasLoadingFailed := True, status := Ready\<rparr>)))"

subsection \<open>Transient messages\<close>

text \<open>
  \<open>_enrichMessagesWithTransient\<close> compares \<open>message.id\<close> with
  \<open>this.oldestPersistentMessage\<close> and \<open>this.newestPersistentMessage\<close>, which are message
  records (or \<open>undefined\<close>), not ids. A relational comparison converts such an operand to a
  number, which gives \<open>NaN\<close> for \<open>undefined\<close> and for an object with no numeric value, and
  every comparison with \<open>NaN\<close> is false.
\<close>

datatype js_number = NaN | Finite rat

definition ToNumber_Message :: "Message option \<Rightarrow> js_number" where
  "ToNumber_Message r = NaN"

fun js_less :: "js_number \<Rightarrow> js_number \<Rightarrow> bool" where
  "js_less (Finite x) (Finite y) = (x < y)"
| "js_less _ _ = False"

text \<open>The body of the loop over \<open>this.transientMessages\<close> (lines 1178 to 1188).\<close>

definition enrichWithTransient :: "Message \<Rightarrow> Thread \<Rightarrow> Thread" where
  "enrichWithTransient message t =
     (if js_less (Finite (id_Message message)) (ToNumber_Message (oldestPersistentMessage t))
           \<and> \<not> loadOlder t
      then t\<lparr>messages := unshift [message] (messages t)\<rparr>
      else if js_less (ToNumber_Message (newestPersistentMessage t)) (Finite (id_Message message))
           \<and> \<not> loadNewer t
      then t\<lparr>messages := push [message] (messages t)\<rparr>
      else
        (let afterIndex = findIndex (\<lambda>msg. id_Message msg > id_Message message) (messages t);
             afterIndex = (if afterIndex = - 1 then int (length (messages t)) + 1 else afterIndex)
         in t\<lparr>messages := splice (afterIndex - 1) 0 [message] (messages t)\<rparr>))"

definition enrichMessagesWithTransient :: "Thread \<Rightarrow> Thread" where
  "enrichMessagesWithTransient t = fold enrichWithTransient (transientMessages t) t"

subsection \<open>fetchMoreMessages\<close>

datatype epoch = Older | Newer

text \<open>
  The part of \<open>fetchMoreMessages\<close> after the anchor check (lines 723 to 746): the merge of
  the fetched messages into the window.
\<close>

definition mergeFetched :: "Store \<Rightarrow> epoch \<Rightarrow> Message list \<Rightarrow> Thread \<Rightarrow> Thread" where
  "mergeFetched store epoch fetched t0 =
     (let alreadyKnownMessages = set (map id_Message (messages t0));
          messagesToAdd = filter (\<lambda>message. id_Message message \<notin> alreadyKnownMessages) fetched;
          t = (if epoch = Older
               then t0\<lparr>messages := unshift messagesToAdd (messages t0)\<rparr>
               else t0\<lparr>messages := push messagesToAdd (messages t0)\<rparr>);
          t = (if length fetched < FETCH_LIMIT store
               then (if epoch = Older then t\<lparr>loadOlder := False\<rparr>
                     else
                       (let t = t\<lparr>loadNewer := False\<rparr>;
                            missingMessages =
                              filter (\<lambda>m. id_Message m \<notin> alreadyKnownMessages)
                                (pendingNewMessages t)
                        in if length missingMessages > 0
                           then t\<lparr>messages :=
                                    sort_key id_Message (push missingMessages (messages t))\<rparr>
                           else t))
               else t)
      in enrichMessagesWithTransient t)"

text \<open>
  The anchors of \<open>fetchMoreMessages\<close> (lines 711 and 712), as the argument it hands to
  \<open>fetchMessages\<close>: \<open>before\<close> is the id of the oldest persisted message for
  \<open>"older"\<close>, \<open>after\<close> the id of the newest one for \<open>"newer"\<close>, each \<open>undefined\<close>
  when the window holds no persisted message.
\<close>

definition fetchMoreMessages_args :: "epoch \<Rightarrow> Thread \<Rightarrow> fetch_args" where
  "fetchMoreMessages_args epoch t =
     \<lparr>after = (if epoch = Newer
               then map_option id_Message (newestPersistentMessage t) else None),
      around = None,
      before = (if epoch = Older
                then map_option id_Message (oldestPersistentMessage t) else None)\<rparr>"

text \<open>The test of lines 715 to 718: an anchor was given and no message of the window has its id.\<close>

definition anchorVanished :: "fetch_args \<Rightarrow> Thread \<Rightarrow> bool" where
  "anchorVanished args t =
     ((after args \<noteq> None
         \<and> \<not> list_ex (\<lambda>message. Some (id_Message message) = after args) (messages t))
      \<or> (before args \<noteq> None
         \<and> \<not> list_ex (\<lambda>message. Some (id_Message message) = before args) (messages t)))"

text \<open>
  \<open>fetchMoreMessages(epoch)\<close>. A \<open>return\<close> inside the \<open>try\<close> ends the call at once; the
  assignment to \<open>pendingNewMessages\<close> after the \<open>try\<close> runs when the block is left at its
  end or through the \<open>catch\<close>.
\<close>

definition fetchMoreMessages ::
  "Store \<Rightarrow> (fetch_request \<Rightarrow> error + Message list) \<Rightarrow> (Thread \<Rightarrow> Thread) \<Rightarrow> epoch
     \<Rightarrow> Thread \<Rightarrow> Thread" where
  "fetchMoreMessages store rpc during epoch t0 =
     (if status t0 = Loading \<or> (epoch = Older \<and> \<not> loadOlder t0)
           \<or> (epoch = Newer \<and> \<not> loadNewer t0)
      then t0
      else
        (let args = fetchMoreMessages_args epoch t0
         in case fetchMessages store rpc during args t0 of
              (Inl e, t) \<Rightarrow> t\<lparr>pendingNewMessages := []\<rparr>
            | (Inr fetched, t) \<Rightarrow>
                if anchorVanished args t then t
                else (mergeFetched store epoch fetched t)\<lparr>pendingNewMessages := []\<rparr>))"

subsection \<open>Replacing a temporary message\<close>

text \<open>
  \<open>this.messages.add(message)\<close> is the one list method of the code that is not an array
  method. Modelled from the spec: \<open>add\<close> of a record list, whose code (\<open>record.js\<close>) is
  not among the sources; the confirmed message is "just added", that is appended unless the
  list holds it already.
\<close>

definition add :: "'a \<Rightarrow> 'a list \<Rightarrow> 'a list" where
  "add x xs = (if x \<in> set xs then xs else xs @ [x])"

text \<open>
  \<open>addOrReplaceMessage(message, tmpMsg)\<close>; \<open>tmpMsg\<close> is \<open>undefined\<close> (\<open>None\<close>) when the post
  created no temporary message.
\<close>

definition addOrReplaceMessage :: "Store \<Rightarrow> Message \<Rightarrow> Message option \<Rightarrow> Thread \<Rightarrow> Thread" where
  "addOrReplaceMessage store message tmpMsg t =
     (case tmpMsg of
        Some tmp \<Rightarrow>
          if tmp \<in> set (messages t) \<and> author message = self store
          then t\<lparr>messages := splice (indexOf tmp (messages t)) 1 [message] (messages t)\<rparr>
          else t\<lparr>messages := add message (messages t)\<rparr>
      | None \<Rightarrow> t\<lparr>messages := add message (messages t)\<rparr>)"

subsection \<open>markAsRead\<close>

text \<open>
  What \<open>markAsRead\<close> starts without waiting for it: the retry chained on
  \<open>isLoadedDeferred\<close>, the \<open>/discuss/channel/mark_as_read\<close> call with its
  \<open>last_message_id\<close> and \<open>sync\<close>, and \<open>markAllMessagesAsRead\<close>.
\<close>

datatype effect =
    RetryWhenLoaded
  | MarkAsReadRpc thread_id rat "bool option"
  | MarkAllMessagesAsRead

text \<open>
  \<open>newestPersistentOfAllMessage\<close>: the first of \<open>allMessages\<close> with an integer id, sorted by
  decreasing id.
\<close>

definition newestPersistentAllMessages :: "Thread \<Rightarrow> Message list" where
  "newestPersistentAllMessages t =
     rev (sort_key id_Message
            (rev (filter (\<lambda>message. Number_isInteger (id_Message message)) (allMessages t))))"

definition newestPersistentOfAllMessage :: "Thread \<Rightarrow> Message option" where
  "newestPersistentOfAllMessage t =
     (case newestPersistentAllMessages t of [] \<Rightarrow> None | m # _ \<Rightarrow> Some m)"

text \<open>\<open>markAsRead({ sync })\<close>: the thread it leaves and the calls it started, in order.\<close>

definition markAsRead :: "bool option \<Rightarrow> Thread \<Rightarrow> Thread \<times> effect list" where
  "markAsRead sync t0 =
     (let newestPersistentMessage = newestPersistentOfAllMessage t0;
          e1 = (if newestPersistentMessage = None \<and> \<not> isLoaded t0
                then [RetryWhenLoaded] else []);
          alreadyReadBySelf = map_option isReadBySelf newestPersistentMessage;
          t = (case selfMember t0 of
                 Some member \<Rightarrow>
                   t0\<lparr>selfMember := Some (member
                        \<lparr>syncUnread := (case sync of Some b \<Rightarrow> b | None \<Rightarrow> syncUnread member),
                         seen_message_id := newestPersistentMessage\<rparr>)\<rparr>
               | None \<Rightarrow> t0);
          e2 = (case newestPersistentMessage of
                  Some m \<Rightarrow>
                    if selfMember t \<noteq> None \<and> alreadyReadBySelf \<noteq> Some True
                    then [MarkAsReadRpc (id_Thread t) (id_Message m) sync] else []
                | None \<Rightarrow> []);
          e3 = (if message_needaction_counter t > 0 then [MarkAllMessagesAsRead] else [])
      in (t, e1 @ e2 @ e3))"

subsection \<open>Sample data\<close>

text \<open>A message of the given id written by persona 1, and a loaded channel holding messages 1 and 2.\<close>

definition sample_message :: "rat \<Rightarrow> Message" where
  "sample_message i =
     \<lparr>id_Message = i, author = 1, isEmpty = False, is_transient = False, isReadBySelf = False\<rparr>"

definition sample_store :: Store where
  "sample_store = \<lparr>FETCH_LIMIT = 30, self = 1\<rparr>"

definition sample_thread :: Thread where
  "sample_thread =
     \<lparr>id_Thread = IdNumber 7, model = ''discuss.channel'', allMessages = [],
      loadOlder = True, loadNewer = True, isLoaded = True, message_needaction_counter = 0,
      messages = [sample_message 1, sample_message 2], pendingNewMessages = [],
      selfMember = None, status = Ready, transientMessages = [], hasLoadingFailed = False\<rparr>"

text \<open>The chatter of a record that is not saved yet: a model other than a channel or a mailbox, and no id.\<close>

definition unsaved_thread :: Thread where
  "unsaved_thread = sample_thread\<lparr>id_Thread := IdUndefined, model := ''res.partner'', messages := []\<rparr>"

text \<open>
  A channel that is not loaded yet and knows none of its messages; the self member's seen
  pointer, received with the member, is message 5.
\<close>

definition unloaded_thread :: Thread where
  "unloaded_thread =
     sample_thread\<lparr>isLoaded := False, messages := [],
       selfMember := Some \<lparr>syncUnread = False, seen_message_id = Some (sample_message 5)\<rparr>\<rparr>"

subsection \<open>The remote log and sequences of fetches\<close>





text \<open>The ids of the persisted messages of the window, in window order.\<close>

definition persistentIds :: "Thread \<Rightarrow> rat list" where
  "persistentIds t = map id_Message (filter persisted (messages t))"

definition window_sorted :: "Thread \<Rightarrow> bool" where
  "window_sorted t = sorted (persistentIds t)"


text \<open>
  What a sequence of fetches takes for granted of the rest of the thread: no transient
  message is a persisted one, no persisted message waiting in \<open>pendingNewMessages\<close> is
  older than the oldest persisted message of the window, and the thread is one
  \<open>fetchMessages\<close> does call the server for.
\<close>

definition fetch_context :: "Thread \<Rightarrow> bool" where
  "fetch_context t =
     (list_all (\<lambda>m. \<not> persisted m) (transientMessages t)
      \<and> (case oldestPersistentMessage t of
            None \<Rightarrow> True
          | Some lo \<Rightarrow>
              list_all (\<lambda>p. persisted p \<longrightarrow> id_Message lo \<le> id_Message p)
                (pendingNewMessages t))
      \<and> (model t \<in> set [''mail.box'', ''discuss.channel''] \<or> \<not> falsy (id_Thread t)))"





text \<open>
  A set of ids is dense in the log when it holds the id of every logged message that lies
  between two of its members.
\<close>

definition dense_in :: "Message list \<Rightarrow> rat set \<Rightarrow> bool" where
  "dense_in slog S =
     (\<forall>m \<in> set slog. \<forall>lo \<in> S. \<forall>hi \<in> S.
        lo \<le> id_Message m \<and> id_Message m \<le> hi \<longrightarrow> id_Message m \<in> S)"

text \<open>What a fetch keeps: the window sorted and dense, in the context above.\<close>

definition window_invariant :: "Message list \<Rightarrow> Thread \<Rightarrow> bool" where
  "window_invariant slog t =
     (window_sorted t \<and> dense_in slog (set (persistentIds t)) \<and> fetch_context t)"

section \<open>Properties\<close>

subsection \<open>Evaluation helpers\<close>

lemma Number_isInteger_Ints: "Number_isInteger x \<longleftrightarrow> x \<in> \<int>"
  by (auto simp: Number_isInteger_def Ints_def)

lemmas sample_defs = sample_message_def sample_store_def sample_thread_def unsaved_thread_def

lemmas array_defs = unshift_def push_def splice_def indexOf_def findLast_def

lemmas getter_defs =
  oldestPersistentMessage_def newestPersistentMessage_def findLast_def persisted_def
  Number_isInteger_Ints

subsection \<open>The page size\<close>

text \<open>
  C7, as the code has it: \<open>fetchMessages\<close> asks for \<open>FETCH_LIMIT\<close> messages whenever
  \<open>around\<close> is \<open>undefined\<close>, whatever \<open>after\<close> and \<open>before\<close> are, and for twice
  \<open>FETCH_LIMIT\<close> exactly when \<open>around\<close> is a number, \<open>0\<close> included.
\<close>

theorem fetchMessages_limit:
  "req_limit (fetchMessages_request store t args) =
     (case around args of None \<Rightarrow> FETCH_LIMIT store | Some a \<Rightarrow> FETCH_LIMIT store * 2)"
  by (cases "around args") (auto simp: fetchMessages_request_def)

theorem fetchMessages_limit_witness:
  "req_limit (fetchMessages_request sample_store sample_thread
      \<lparr>after = None, around = Some 0, before = None\<rparr>) = 60
   \<and> req_limit (fetchMessages_request sample_store sample_thread
      \<lparr>after = Some 2, around = None, before = None\<rparr>) = 30"
  using fetchMessages_limit [of sample_store sample_thread "\<lparr>after = None, around = Some 0, before = None\<rparr>"]
    fetchMessages_limit [of sample_store sample_thread "\<lparr>after = Some 2, around = None, before = None\<rparr>"]
  by (simp add: sample_store_def)

text \<open>
  C7, as the claim has it, fails: with the anchor of \<open>around\<close> unspecified, which is the
  call \<open>loadAround(undefined)\<close> makes, the limit asked for is \<open>FETCH_LIMIT\<close> (30), not
  twice that.
\<close>

theorem fetchMessages_limit_unspecified_around:
  "req_limit (fetchMessages_request sample_store sample_thread
      \<lparr>after = None, around = None, before = None\<rparr>) = 30
   \<and> req_limit (fetchMessages_request sample_store sample_thread
      \<lparr>after = None, around = None, before = None\<rparr>) \<noteq> 2 * FETCH_LIMIT sample_store"
  by (simp add: fetchMessages_request_def sample_store_def)

subsection \<open>The status of a fetch\<close>

lemma fetchMessages_status:
  "status (snd (fetchMessages store rpc during args t)) =
     (if model t \<notin> set [''mail.box'', ''discuss.channel''] \<and> falsy (id_Thread t)
      then Loading else Ready)"
  by (simp add: fetchMessages_def Let_def split: sum.split)

text \<open>
  C2 at the early return of \<open>fetchMessages\<close>: for a thread whose model is neither a
  mailbox nor a channel and that has no id, the call returns the empty list before it
  enters the \<open>try\<close>, and the status it wrote on entry stays \<open>"loading"\<close>.
\<close>

theorem fetchMessages_early_return_status:
  "fetchMessages sample_store rpc during \<lparr>after = None, around = None, before = None\<rparr>
      unsaved_thread
     = (Inr [], unsaved_thread\<lparr>status := Loading, isLoaded := True\<rparr>)
   \<and> status (snd (fetchMessages sample_store rpc during
        \<lparr>after = None, around = None, before = None\<rparr> unsaved_thread)) = Loading"
  by (simp add: fetchMessages_def Let_def unsaved_thread_def sample_thread_def)

subsection \<open>Transient messages keep the flags\<close>

lemma enrichWithTransient_frame:
  "loadOlder (enrichWithTransient m t) = loadOlder t
   \<and> loadNewer (enrichWithTransient m t) = loadNewer t
   \<and> pendingNewMessages (enrichWithTransient m t) = pendingNewMessages t
   \<and> status (enrichWithTransient m t) = status t"
  by (simp add: enrichWithTransient_def Let_def)

lemma fold_enrichWithTransient_frame:
  "loadOlder (fold enrichWithTransient ms t) = loadOlder t
   \<and> loadNewer (fold enrichWithTransient ms t) = loadNewer t
   \<and> pendingNewMessages (fold enrichWithTransient ms t) = pendingNewMessages t
   \<and> status (fold enrichWithTransient ms t) = status t"
  by (induction ms arbitrary: t) (simp_all add: enrichWithTransient_frame)

lemma enrichMessagesWithTransient_frame:
  "loadOlder (enrichMessagesWithTransient t) = loadOlder t
   \<and> loadNewer (enrichMessagesWithTransient t) = loadNewer t
   \<and> pendingNewMessages (enrichMessagesWithTransient t) = pendingNewMessages t
   \<and> status (enrichMessagesWithTransient t) = status t"
  by (simp add: enrichMessagesWithTransient_def fold_enrichWithTransient_frame)

subsection \<open>The anchor check of fetchMoreMessages\<close>

text \<open>
  C3: a call of \<open>fetchMoreMessages\<close> that passed its guards took the id of the oldest
  (for \<open>"older"\<close>) or newest (for \<open>"newer"\<close>) persisted message as its anchor. If that id
  is not in the window when \<open>fetchMessages\<close> returns, the call leaves the window and both
  flags as they are at that moment, whatever the remote call answered.
\<close>

theorem fetchMoreMessages_race_abort:
  assumes guards: "\<not> (status t0 = Loading \<or> (epoch = Older \<and> \<not> loadOlder t0)
                        \<or> (epoch = Newer \<and> \<not> loadNewer t0))"
    and anchor: "(case epoch of Older \<Rightarrow> oldestPersistentMessage t0
                               | Newer \<Rightarrow> newestPersistentMessage t0) = Some anchor"
    and returned: "fetchMessages store rpc during (fetchMoreMessages_args epoch t0) t0
                   = (result, t)"
    and vanished: "id_Message anchor \<notin> set (map id_Message (messages t))"
  shows "messages (fetchMoreMessages store rpc during epoch t0) = messages t
         \<and> loadOlder (fetchMoreMessages store rpc during epoch t0) = loadOlder t
         \<and> loadNewer (fetchMoreMessages store rpc during epoch t0) = loadNewer t"
proof -
  have gone: "\<not> list_ex (\<lambda>message. Some (id_Message message) = Some (id_Message anchor))
                 (messages t)"
  proof
    assume "list_ex (\<lambda>message. Some (id_Message message) = Some (id_Message anchor))
              (messages t)"
    then obtain m where "m \<in> set (messages t)" and "id_Message m = id_Message anchor"
      by (auto simp: list_ex_iff)
    then have "id_Message anchor \<in> id_Message ` set (messages t)"
      by (metis imageI)
    with vanished show False by simp
  qed
  have "anchorVanished (fetchMoreMessages_args epoch t0) t"
    using anchor gone by (cases epoch) (simp_all add: anchorVanished_def fetchMoreMessages_args_def)
  with guards returned show ?thesis
    by (cases result) (auto simp: fetchMoreMessages_def)
qed

text \<open>
  The theorem at a run: the channel holds messages 1 and 2 and fetches older ones; while
  the call is suspended the window is replaced by message 5; the page that comes back
  (message 0) is dropped.
\<close>

theorem fetchMoreMessages_race_abort_witness:
  "map id_Message (messages (fetchMoreMessages sample_store (\<lambda>request. Inr [sample_message 0])
       (\<lambda>t. t\<lparr>messages := [sample_message 5]\<rparr>) Older sample_thread)) = [5]
   \<and> loadOlder (fetchMoreMessages sample_store (\<lambda>request. Inr [sample_message 0])
       (\<lambda>t. t\<lparr>messages := [sample_message 5]\<rparr>) Older sample_thread)
   \<and> loadNewer (fetchMoreMessages sample_store (\<lambda>request. Inr [sample_message 0])
       (\<lambda>t. t\<lparr>messages := [sample_message 5]\<rparr>) Older sample_thread)"
proof -
  let ?during = "\<lambda>t. t\<lparr>messages := [sample_message 5]\<rparr>"
  let ?rpc = "\<lambda>request :: fetch_request. (Inr [sample_message 0] :: error + Message list)"
  let ?t = "sample_thread\<lparr>status := Ready, messages := [sample_message 5], isLoaded := True\<rparr>"
  have guards: "\<not> (status sample_thread = Loading \<or> (Older = Older \<and> \<not> loadOlder sample_thread)
                        \<or> (Older = Newer \<and> \<not> loadNewer sample_thread))"
    by (simp add: sample_thread_def)
  have anchor: "(case Older of Older \<Rightarrow> oldestPersistentMessage sample_thread
                  | Newer \<Rightarrow> newestPersistentMessage sample_thread) = Some (sample_message 1)"
    by (simp add: sample_thread_def sample_message_def getter_defs)
  have returned: "fetchMessages sample_store ?rpc ?during
                     (fetchMoreMessages_args Older sample_thread) sample_thread
                   = (Inr [sample_message 0], ?t)"
    by (simp add: fetchMessages_def Let_def sample_thread_def)
  have vanished: "id_Message (sample_message 1) \<notin> set (map id_Message (messages ?t))"
    by (simp add: sample_message_def)
  from fetchMoreMessages_race_abort [OF guards anchor returned vanished]
  show ?thesis by (simp add: sample_thread_def sample_message_def)
qed

text \<open>
  Every way out of \<open>fetchMoreMessages\<close> but the guards and the anchor check empties
  \<open>pendingNewMessages\<close>.
\<close>

lemma fetchMoreMessages_clears_pending:
  assumes "\<not> (status t0 = Loading \<or> (epoch = Older \<and> \<not> loadOlder t0)
                 \<or> (epoch = Newer \<and> \<not> loadNewer t0))"
    and "fetchMessages store rpc during (fetchMoreMessages_args epoch t0) t0 = (result, t)"
    and "\<not> anchorVanished (fetchMoreMessages_args epoch t0) t \<or> (\<exists>e. result = Inl e)"
  shows "pendingNewMessages (fetchMoreMessages store rpc during epoch t0) = []"
  using assms by (cases result) (auto simp: fetchMoreMessages_def)

text \<open>
  C4 at a race abort: the channel holds message 1 and asks for newer messages; while the
  call is suspended message 1 is deleted from the window and message 9 arrives on the bus
  in \<open>pendingNewMessages\<close>. The anchor check fails, the \<open>return\<close> inside the \<open>try\<close> ends
  the call, and \<open>pendingNewMessages\<close> still holds message 9.
\<close>

theorem fetchMoreMessages_abort_keeps_pending:
  "pendingNewMessages
     (fetchMoreMessages sample_store (\<lambda>request. Inr [sample_message 3])
        (\<lambda>t. t\<lparr>messages := [], pendingNewMessages := [sample_message 9]\<rparr>)
        Newer (sample_thread\<lparr>messages := [sample_message 1]\<rparr>))
   = [sample_message 9]"
  by (simp add: fetchMoreMessages_def fetchMoreMessages_args_def anchorVanished_def
      fetchMessages_def Let_def sample_defs getter_defs)

text \<open>
  C5 at a fetch of newer messages that reaches the end of the log: the channel holds
  messages 1 and 2; message 3 arrives on the bus while the call is suspended and is also
  in the page the server answers. The pending messages are filtered against the ids the
  window held before the page was pushed, so message 3 is pushed twice.
\<close>

theorem fetchMoreMessages_duplicates_pending:
  "map id_Message (messages
     (fetchMoreMessages sample_store (\<lambda>request. Inr [sample_message 3])
        (\<lambda>t. t\<lparr>pendingNewMessages := [sample_message 3]\<rparr>) Newer sample_thread))
   = [1, 2, 3, 3]
   \<and> \<not> distinct (map id_Message (messages
     (fetchMoreMessages sample_store (\<lambda>request. Inr [sample_message 3])
        (\<lambda>t. t\<lparr>pendingNewMessages := [sample_message 3]\<rparr>) Newer sample_thread)))"
  by (simp add: fetchMoreMessages_def fetchMoreMessages_args_def anchorVanished_def
      fetchMessages_def mergeFetched_def Let_def sample_defs getter_defs push_def
      enrichMessagesWithTransient_def)

text \<open>
  C6 at a window of messages 1, 2 and 3 with the transient message 2.01: the first entry
  with a greater id is message 3, at index 2, and the code inserts at index 2 - 1, before
  message 2.
\<close>

theorem enrichMessagesWithTransient_off_by_one:
  "map id_Message (messages (enrichMessagesWithTransient
      (sample_thread\<lparr>messages := [sample_message 1, sample_message 2, sample_message 3],
                      transientMessages := [sample_message (201 / 100)]\<rparr>)))
   = [1, 201 / 100, 2, 3]
   \<and> map id_Message (messages (enrichMessagesWithTransient
      (sample_thread\<lparr>messages := [sample_message 1, sample_message 2, sample_message 3],
                      transientMessages := [sample_message (201 / 100)]\<rparr>)))
     \<noteq> [1, 2, 201 / 100, 3]"
  by (simp add: enrichMessagesWithTransient_def enrichWithTransient_def ToNumber_Message_def
      Let_def sample_defs getter_defs splice_def)

text \<open>
  The two comparisons of \<open>_enrichMessagesWithTransient\<close> are never true, so every transient
  message takes the \<open>splice\<close> branch: with \<open>loadOlder\<close> false, the transient message 0.5
  is not prepended to the window 1, 2, 3 but inserted before its last entry (the first
  entry with a greater id is at index 0, and \<open>splice(-1, ...)\<close> counts from the end).
\<close>

lemma enrichWithTransient_splice:
  "enrichWithTransient message t =
     (let afterIndex = findIndex (\<lambda>msg. id_Message msg > id_Message message) (messages t);
          afterIndex = (if afterIndex = - 1 then int (length (messages t)) + 1 else afterIndex)
      in t\<lparr>messages := splice (afterIndex - 1) 0 [message] (messages t)\<rparr>)"
  by (simp add: enrichWithTransient_def ToNumber_Message_def)

lemma enrichMessagesWithTransient_not_prepended:
  "map id_Message (messages (enrichMessagesWithTransient
      (sample_thread\<lparr>messages := [sample_message 1, sample_message 2, sample_message 3],
                      loadOlder := False,
                      transientMessages := [sample_message (1 / 2)]\<rparr>)))
   = [1, 2, 1 / 2, 3]"
  by (simp add: enrichMessagesWithTransient_def enrichWithTransient_def ToNumber_Message_def
      Let_def sample_defs getter_defs splice_def)

subsection \<open>The boundary flag after a merge\<close>

lemma mergeFetched_flags:
  "loadOlder (mergeFetched store epoch fetched t) =
     (loadOlder t \<and> \<not> (epoch = Older \<and> length fetched < FETCH_LIMIT store))"
  "loadNewer (mergeFetched store epoch fetched t) =
     (loadNewer t \<and> \<not> (epoch = Newer \<and> length fetched < FETCH_LIMIT store))"
  by (cases epoch; simp add: mergeFetched_def Let_def enrichMessagesWithTransient_frame)+

text \<open>
  C8: a call of \<open>fetchMoreMessages\<close> that passed its guards, whose fetch returned the list
  \<open>fetched\<close> and whose anchor check passed, with the flag of its direction still set when
  the fetch returned, leaves that flag set if and only if \<open>fetched\<close> is not shorter than
  \<open>FETCH_LIMIT\<close>: it becomes false exactly when fewer than \<open>FETCH_LIMIT\<close> messages came
  back, and stays true for exactly \<open>FETCH_LIMIT\<close> of them.
\<close>

theorem fetchMoreMessages_boundary_flag:
  assumes guards: "\<not> (status t0 = Loading \<or> (epoch = Older \<and> \<not> loadOlder t0)
                        \<or> (epoch = Newer \<and> \<not> loadNewer t0))"
    and returned: "fetchMessages store rpc during (fetchMoreMessages_args epoch t0) t0
                   = (Inr fetched, t)"
    and merged: "\<not> anchorVanished (fetchMoreMessages_args epoch t0) t"
    and flag: "case epoch of Older \<Rightarrow> loadOlder t | Newer \<Rightarrow> loadNewer t"
  shows "(case epoch of
            Older \<Rightarrow> loadOlder (fetchMoreMessages store rpc during epoch t0)
          | Newer \<Rightarrow> loadNewer (fetchMoreMessages store rpc during epoch t0))
         = (\<not> length fetched < FETCH_LIMIT store)"
proof -
  have "fetchMoreMessages store rpc during epoch t0
        = (mergeFetched store epoch fetched t)\<lparr>pendingNewMessages := []\<rparr>"
    using guards returned merged by (auto simp: fetchMoreMessages_def)
  then show ?thesis
    using flag by (cases epoch) (simp_all add: mergeFetched_flags)
qed

text \<open>
  The theorem at two runs of the sample channel fetching older messages with no
  interference: a page of one message against a limit of 30 clears \<open>loadOlder\<close>, a page
  of one message against a limit of 1 keeps it.
\<close>

theorem fetchMoreMessages_boundary_flag_witness:
  "\<not> loadOlder (fetchMoreMessages sample_store (\<lambda>request. Inr [sample_message 0]) (\<lambda>t. t)
        Older sample_thread)
   \<and> loadOlder (fetchMoreMessages (sample_store\<lparr>FETCH_LIMIT := 1\<rparr>)
        (\<lambda>request. Inr [sample_message 0]) (\<lambda>t. t) Older sample_thread)"
proof -
  let ?rpc = "\<lambda>request :: fetch_request. (Inr [sample_message 0] :: error + Message list)"
  let ?t = "sample_thread\<lparr>status := Ready\<rparr>"
  have guards: "\<not> (status sample_thread = Loading \<or> (Older = Older \<and> \<not> loadOlder sample_thread)
                        \<or> (Older = Newer \<and> \<not> loadNewer sample_thread))"
    by (simp add: sample_thread_def)
  have returned: "fetchMessages store ?rpc (\<lambda>t. t) (fetchMoreMessages_args Older sample_thread)
                    sample_thread = (Inr [sample_message 0], ?t)" for store
    by (simp add: fetchMessages_def Let_def sample_thread_def)
  have merged: "\<not> anchorVanished (fetchMoreMessages_args Older sample_thread) ?t"
    by (simp add: anchorVanished_def fetchMoreMessages_args_def sample_thread_def
        sample_message_def getter_defs)
  have flag: "case Older of Older \<Rightarrow> loadOlder ?t | Newer \<Rightarrow> loadNewer ?t"
    by (simp add: sample_thread_def)
  from fetchMoreMessages_boundary_flag [OF guards returned merged flag, of sample_store]
    fetchMoreMessages_boundary_flag [OF guards returned merged flag,
      of "sample_store\<lparr>FETCH_LIMIT := 1\<rparr>"]
  show ?thesis by (simp add: sample_store_def)
qed

subsection \<open>Replacing the temporary message in place\<close>

lemma findIndex_found:
  assumes "\<exists>x \<in> set xs. P x"
  shows "0 \<le> findIndex P xs \<and> nat (findIndex P xs) < length xs
         \<and> P (xs ! nat (findIndex P xs))
         \<and> (\<forall>j < nat (findIndex P xs). \<not> P (xs ! j))"
  using assms
proof (induction xs)
  case Nil
  then show ?case by simp
next
  case (Cons x xs)
  show ?case
  proof (cases "P x")
    case True
    then show ?thesis by simp
  next
    case False
    with Cons.prems have "\<exists>x \<in> set xs. P x" by simp
    from Cons.IH [OF this] have ih: "0 \<le> findIndex P xs" "nat (findIndex P xs) < length xs"
      "P (xs ! nat (findIndex P xs))" "\<forall>j < nat (findIndex P xs). \<not> P (xs ! j)"
      by simp_all
    from ih(1) have idx: "nat (findIndex P xs + 1) = Suc (nat (findIndex P xs))" by simp
    have neq: "findIndex P xs \<noteq> - 1" using ih(1) by simp
    have "\<forall>j < Suc (nat (findIndex P xs)). \<not> P ((x # xs) ! j)"
      using False ih(4) by (auto simp: nth_Cons split: nat.split)
    with False ih neq idx show ?thesis by (simp add: Let_def)
  qed
qed

lemma splice_replace_one:
  assumes "0 \<le> i" and "nat i < length xs"
  shows "splice i 1 [y] xs = xs[nat i := y]"
proof -
  from assms have "min i (int (length xs)) = i" by simp
  moreover from assms have "min (1::nat) (length xs - nat i) = 1" by simp
  ultimately have "splice i 1 [y] xs = take (nat i) xs @ [y] @ drop (nat i + 1) xs"
    using assms by (simp add: splice_def Let_def)
  also have "\<dots> = xs[nat i := y]"
    using assms by (simp add: upd_conv_take_nth_drop)
  finally show ?thesis .
qed

text \<open>
  C9: when \<open>addOrReplaceMessage\<close> is given a temporary message that is in the window and a
  confirmed message written by \<open>store.self\<close>, the window it leaves is the old one with the
  confirmed message written over the first occurrence of the temporary one: same length,
  every other index untouched. In every other case the window is the old one with the
  confirmed message added, every old entry at its old index.
\<close>

theorem addOrReplaceMessage_in_place:
  "(\<forall>tmp. tmpMsg = Some tmp \<and> tmp \<in> set (messages t) \<and> author message = self store \<longrightarrow>
      (\<exists>i < length (messages t).
         messages t ! i = tmp \<and> (\<forall>j < i. messages t ! j \<noteq> tmp)
         \<and> messages (addOrReplaceMessage store message tmpMsg t) = (messages t)[i := message]))
   \<and> (\<not> (\<exists>tmp. tmpMsg = Some tmp \<and> tmp \<in> set (messages t) \<and> author message = self store) \<longrightarrow>
        messages (addOrReplaceMessage store message tmpMsg t) = add message (messages t)
        \<and> take (length (messages t)) (messages (addOrReplaceMessage store message tmpMsg t))
            = messages t)"
proof (intro conjI allI impI)
  fix tmp
  assume h: "tmpMsg = Some tmp \<and> tmp \<in> set (messages t) \<and> author message = self store"
  let ?i = "indexOf tmp (messages t)"
  from h have "\<exists>x \<in> set (messages t). x = tmp" by simp
  from findIndex_found [OF this]
  have found: "0 \<le> ?i" "nat ?i < length (messages t)" "messages t ! nat ?i = tmp"
    "\<forall>j < nat ?i. messages t ! j \<noteq> tmp"
    by (simp_all add: indexOf_def)
  have "messages (addOrReplaceMessage store message tmpMsg t) = (messages t)[nat ?i := message]"
    using h splice_replace_one [OF found(1,2), of message]
    by (simp add: addOrReplaceMessage_def)
  with found show "\<exists>i < length (messages t).
         messages t ! i = tmp \<and> (\<forall>j < i. messages t ! j \<noteq> tmp)
         \<and> messages (addOrReplaceMessage store message tmpMsg t) = (messages t)[i := message]"
    by blast
next
  assume "\<not> (\<exists>tmp. tmpMsg = Some tmp \<and> tmp \<in> set (messages t) \<and> author message = self store)"
  then show "messages (addOrReplaceMessage store message tmpMsg t) = add message (messages t)"
    by (cases tmpMsg) (auto simp: addOrReplaceMessage_def)
next
  assume "\<not> (\<exists>tmp. tmpMsg = Some tmp \<and> tmp \<in> set (messages t) \<and> author message = self store)"
  then have "messages (addOrReplaceMessage store message tmpMsg t) = add message (messages t)"
    by (cases tmpMsg) (auto simp: addOrReplaceMessage_def)
  then show "take (length (messages t)) (messages (addOrReplaceMessage store message tmpMsg t))
             = messages t"
    by (simp add: add_def)
qed

text \<open>
  The theorem at two confirmations of a post whose temporary message 2.01 is last in the
  window after messages 1 and 2: message 3 written by self takes index 2; message 3
  written by another persona is appended and the temporary message stays at index 2.
\<close>

theorem addOrReplaceMessage_in_place_witness:
  "map id_Message (messages (addOrReplaceMessage sample_store (sample_message 3)
      (Some (sample_message (201 / 100)))
      (sample_thread\<lparr>messages :=
         [sample_message 1, sample_message 2, sample_message (201 / 100)]\<rparr>)))
     = [1, 2, 3]
   \<and> map id_Message (messages (addOrReplaceMessage sample_store
      ((sample_message 3)\<lparr>author := 2\<rparr>) (Some (sample_message (201 / 100)))
      (sample_thread\<lparr>messages :=
         [sample_message 1, sample_message 2, sample_message (201 / 100)]\<rparr>)))
     = [1, 2, 201 / 100, 3]"
proof -
  let ?t = "sample_thread\<lparr>messages :=
              [sample_message 1, sample_message 2, sample_message (201 / 100)]\<rparr>"
  let ?tmp = "sample_message (201 / 100)"
  have present: "Some ?tmp = Some ?tmp \<and> ?tmp \<in> set (messages ?t)
                 \<and> author (sample_message 3) = self sample_store"
    by (simp add: sample_defs)
  from addOrReplaceMessage_in_place [of "Some ?tmp" ?t "sample_message 3" sample_store] present
  obtain i where i: "i < length (messages ?t)" "messages ?t ! i = ?tmp"
    and r: "messages (addOrReplaceMessage sample_store (sample_message 3) (Some ?tmp) ?t)
            = (messages ?t)[i := sample_message 3]"
    by blast
  from i have "i = 2"
    by (auto simp: sample_defs nth_Cons less_Suc_eq split: nat.splits)
  with r have first: "map id_Message
      (messages (addOrReplaceMessage sample_store (sample_message 3) (Some ?tmp) ?t)) = [1, 2, 3]"
    by (simp add: sample_defs)
  have absent: "\<not> (\<exists>tmp. Some ?tmp = Some tmp \<and> tmp \<in> set (messages ?t)
                  \<and> author ((sample_message 3)\<lparr>author := 2\<rparr>) = self sample_store)"
    by (simp add: sample_defs)
  from addOrReplaceMessage_in_place
         [of "Some ?tmp" ?t "(sample_message 3)\<lparr>author := 2\<rparr>" sample_store] absent
  have "messages (addOrReplaceMessage sample_store ((sample_message 3)\<lparr>author := 2\<rparr>)
          (Some ?tmp) ?t) = add ((sample_message 3)\<lparr>author := 2\<rparr>) (messages ?t)"
    by blast
  then have second: "map id_Message (messages (addOrReplaceMessage sample_store
      ((sample_message 3)\<lparr>author := 2\<rparr>) (Some ?tmp) ?t)) = [1, 2, 201 / 100, 3]"
    by (simp add: add_def sample_defs)
  from first second show ?thesis by simp
qed

subsection \<open>markAsRead on a thread that is not loaded\<close>

text \<open>
  C10 at a channel that is not loaded and knows no persisted message, whose self member's
  seen pointer is message 5: \<open>markAsRead\<close> chains the retry on \<open>isLoadedDeferred\<close> and
  goes on without returning; it sends no \<open>mark_as_read\<close> call, but it assigns
  \<open>newestPersistentMessage\<close>, which is \<open>undefined\<close>, to \<open>selfMember.seen_message_id\<close>.
  With a positive \<open>message_needaction_counter\<close> it also calls \<open>markAllMessagesAsRead\<close>.
\<close>

theorem markAsRead_deferred_writes_seen:
  "markAsRead None unloaded_thread =
     (unloaded_thread\<lparr>selfMember := Some \<lparr>syncUnread = False, seen_message_id = None\<rparr>\<rparr>,
      [RetryWhenLoaded])
   \<and> snd (markAsRead None (unloaded_thread\<lparr>message_needaction_counter := 2\<rparr>)) =
       [RetryWhenLoaded, MarkAllMessagesAsRead]"
  by (simp add: markAsRead_def newestPersistentOfAllMessage_def newestPersistentAllMessages_def
      Let_def unloaded_thread_def sample_thread_def)

subsection \<open>Pages of the remote log\<close>


















subsection \<open>Merging a page keeps the window sorted and dense\<close>




subsection \<open>The persisted ids of the window after a merge\<close>



lemma enrichWithTransient_transientMessages:
  "transientMessages (enrichWithTransient m t) = transientMessages t"
  by (simp add: enrichWithTransient_def Let_def)


lemma fold_enrichWithTransient_transientMessages:
  "transientMessages (fold enrichWithTransient ms t) = transientMessages t"
  by (induction ms arbitrary: t) (simp_all add: enrichWithTransient_transientMessages)




subsection \<open>A fetch of older messages\<close>


subsection \<open>A fetch of newer messages\<close>



subsection \<open>Sequences of fetches keep the window free of holes\<close>




lemma window_invariant_frame:
  assumes "messages t' = messages t" and "pendingNewMessages t' = pendingNewMessages t"
    and "transientMessages t' = transientMessages t"
    and "model t' = model t" and "id_Thread t' = id_Thread t"
    and "window_invariant slog t"
  shows "window_invariant slog t'"
  using assms
  by (simp add: window_invariant_def window_sorted_def persistentIds_def fetch_context_def
      oldestPersistentMessage_def cong: option.case_cong)









end
